theory Spec2Isabelle
  imports Complex_Main
begin

section \<open>Capital adequacy stress testing: data model\<close>

text \<open>
  The program is a Streamlit script, \<^verbatim>\<open>capital_adequacy_stress_testing.py\<close>. Its widget
  values are Python floats; they are modelled as \<^typ>\<open>real\<close>, that is, with exact
  arithmetic: IEEE rounding, infinities and NaN are outside the model. The number of
  simulations is a Python int, modelled as \<^typ>\<open>int\<close>.

  The script's sidebar inputs (lines 21 to 24) are the bank's financials.
\<close>

record BankFinancials =
  cet1_capital :: real
  tier1_capital :: real
  total_capital :: real
  risk_weighted_assets :: real

text \<open>The three stress magnitudes of a scenario, in percent (lines 50 to 89).\<close>

record StressTriple =
  interest_rate_hike_pct :: real
  credit_loss_rate_pct :: real
  market_shock_pct :: real

text \<open>The values computed by the stress testing logic (lines 92 to 98).\<close>

record StressResult =
  interest_rate_loss :: real
  credit_losses :: real
  market_shock_loss :: real
  total_losses :: real
  updated_cet1 :: real
  updated_cet1_ratio_pct :: real

text \<open>What a Monte Carlo run reports (lines 127 to 133).\<close>

record SimulationSummary =
  sample_count :: int
  ratios :: "real list"
  mean_ratio :: real
  min_ratio :: real
  max_ratio :: real

text \<open>
  Failures. \<open>DivisionByZero\<close> is Python's \<^verbatim>\<open>ZeroDivisionError\<close>, raised by float division;
  \<open>ValueError\<close> is what numpy raises for the minimum or maximum of an empty sequence;
  \<open>TypeError\<close> is what unpacking \<^verbatim>\<open>None\<close> into three names raises. \<open>UnknownScenario\<close>
  and \<open>InvalidSampleCount\<close> are the two remaining names of the specification's error
  taxonomy; the script has no statement that raises them.
\<close>

datatype error = DivisionByZero | ValueError | TypeError | UnknownScenario | InvalidSampleCount

section \<open>Stress testing logic\<close>

text \<open>
  Lines 92 to 98, with the financials and the triple as parameters. The five
  assignments before the division cannot fail; Python's float division raises on a zero
  divisor, so the result exists only when the risk-weighted assets are not zero.
\<close>

definition compute_result :: "BankFinancials \<Rightarrow> StressTriple \<Rightarrow> error + StressResult" where
  "compute_result f t =
     (let interest_rate_loss_v = risk_weighted_assets f * (interest_rate_hike_pct t / 100);
          credit_losses_v = risk_weighted_assets f * (credit_loss_rate_pct t / 100);
          market_shock_loss_v = tier1_capital f * (market_shock_pct t / 100);
          total_losses_v = interest_rate_loss_v + credit_losses_v + market_shock_loss_v;
          updated_cet1_v = cet1_capital f - total_losses_v
      in if risk_weighted_assets f = 0 then Inl DivisionByZero
         else Inr \<lparr>interest_rate_loss = interest_rate_loss_v,
                   credit_losses = credit_losses_v,
                   market_shock_loss = market_shock_loss_v,
                   total_losses = total_losses_v,
                   updated_cet1 = updated_cet1_v,
                   updated_cet1_ratio_pct = (updated_cet1_v / risk_weighted_assets f) * 100\<rparr>)"

text \<open>The default sidebar values (lines 21 to 24) and the Mild Recession triple (lines 55 to 57).\<close>

definition default_financials :: BankFinancials where
  "default_financials =
     \<lparr>cet1_capital = 1000, tier1_capital = 1200, total_capital = 1500,
      risk_weighted_assets = 12000\<rparr>"

definition mild_recession :: StressTriple where
  "mild_recession =
     \<lparr>interest_rate_hike_pct = 1.0, credit_loss_rate_pct = 2.0, market_shock_pct = 3.0\<rparr>"

section \<open>What-if composition\<close>


section \<open>Scenario catalogue\<close>

definition triple :: "real \<Rightarrow> real \<Rightarrow> real \<Rightarrow> StressTriple" where
  "triple h c m =
     \<lparr>interest_rate_hike_pct = h, credit_loss_rate_pct = c, market_shock_pct = m\<rparr>"

text \<open>The options of the scenario select boxes (lines 180 to 191).\<close>

definition scenario_names :: "string list" where
  "scenario_names =
     [''Baseline (No Stress)'', ''Mild Recession'', ''Severe Recession'',
      ''Interest Rate Shock'', ''Market Crash'', ''Credit Crisis'', ''Inflation Shock'',
      ''Liquidity Stress'', ''Currency Devaluation'', ''Custom Scenario'']"

text \<open>
  \<^verbatim>\<open>get_scenario_parameters\<close> (lines 213 to 236). The second argument stands for the three
  sliders that the last branch reads. The chain of \<^verbatim>\<open>elif\<close> has no \<^verbatim>\<open>else\<close>: for any
  other name the function falls off its end and returns Python's \<^verbatim>\<open>None\<close>, modelled by
  \<^const>\<open>None\<close>.
\<close>

definition get_scenario_parameters :: "string \<Rightarrow> StressTriple \<Rightarrow> StressTriple option" where
  "get_scenario_parameters scenario sliders =
     (if scenario = ''Baseline (No Stress)'' then Some (triple 0.0 0.0 0.0)
      else if scenario = ''Mild Recession'' then Some (triple 1.0 2.0 3.0)
      else if scenario = ''Severe Recession'' then Some (triple 2.5 5.0 8.0)
      else if scenario = ''Interest Rate Shock'' then Some (triple 3.0 0.0 0.0)
      else if scenario = ''Market Crash'' then Some (triple 0.0 0.0 10.0)
      else if scenario = ''Credit Crisis'' then Some (triple 0.5 8.0 3.0)
      else if scenario = ''Inflation Shock'' then Some (triple 4.0 1.0 2.0)
      else if scenario = ''Liquidity Stress'' then Some (triple 0.0 3.0 5.0)
      else if scenario = ''Currency Devaluation'' then Some (triple 1.5 2.5 6.0)
      else if scenario = ''Custom Scenario'' then Some sliders
      else None)"

text \<open>
  The call sites (lines 239 and 240) unpack the returned value into three names; unpacking
  \<^verbatim>\<open>None\<close> raises \<^verbatim>\<open>TypeError\<close>.
\<close>

definition unpack_parameters :: "StressTriple option \<Rightarrow> error + StressTriple" where
  "unpack_parameters v = (case v of None \<Rightarrow> Inl TypeError | Some t \<Rightarrow> Inr t)"

definition lookup :: "string \<Rightarrow> StressTriple \<Rightarrow> error + StressTriple" where
  "lookup scenario sliders = unpack_parameters (get_scenario_parameters scenario sliders)"

section \<open>Scenario comparison\<close>


section \<open>Monte Carlo simulation\<close>

text \<open>
  The script draws from numpy's process-wide generator with \<^verbatim>\<open>np.random.uniform\<close>. numpy is
  not part of the repository, so the generator is a parameter: \<open>rnd\<close> maps a generator
  state to a unit sample and the next state, and the state is threaded through the run as
  the global state is in the process. \<^verbatim>\<open>uniform(low, high)\<close> scales one unit sample.
\<close>

definition np_random_uniform :: "('g \<Rightarrow> real \<times> 'g) \<Rightarrow> real \<Rightarrow> real \<Rightarrow> 'g \<Rightarrow> real \<times> 'g" where
  "np_random_uniform rnd low high g = (case rnd g of (u, g') \<Rightarrow> (low + (high - low) * u, g'))"

text \<open>
  The loop of lines 115 to 127, with the remaining number of iterations, the list built so
  far and the generator state. An iteration draws three values, then divides; the
  division raises when the risk-weighted assets are zero.
\<close>

fun simulation_loop ::
  "('g \<Rightarrow> real \<times> 'g) \<Rightarrow> BankFinancials \<Rightarrow> nat \<Rightarrow> real list \<Rightarrow> 'g \<Rightarrow> (error + real list) \<times> 'g" where
  "simulation_loop rnd f 0 simulation_results g = (Inr simulation_results, g)"
| "simulation_loop rnd f (Suc n) simulation_results g =
     (case np_random_uniform rnd 0 5 g of (simulated_interest_rate_hike, g1) \<Rightarrow>
      case np_random_uniform rnd 0 10 g1 of (simulated_credit_loss_rate, g2) \<Rightarrow>
      case np_random_uniform rnd 0 10 g2 of (simulated_market_shock, g3) \<Rightarrow>
        let simulated_losses =
              risk_weighted_assets f * (simulated_interest_rate_hike / 100)
              + risk_weighted_assets f * (simulated_credit_loss_rate / 100)
              + tier1_capital f * (simulated_market_shock / 100);
            simulated_cet1 = cet1_capital f - simulated_losses
        in if risk_weighted_assets f = 0 then (Inl DivisionByZero, g3)
           else simulation_loop rnd f n
                  (simulation_results @ [(simulated_cet1 / risk_weighted_assets f) * 100]) g3)"

text \<open>
  The aggregates of lines 131 to 133. \<^verbatim>\<open>np.mean\<close> divides the sum by the length; on an empty
  list it warns and returns NaN without raising, a value outside this model, and no summary
  is formed in that case because \<^verbatim>\<open>np.min\<close> raises next. \<^verbatim>\<open>np.min\<close> and \<^verbatim>\<open>np.max\<close> raise
  \<^verbatim>\<open>ValueError\<close> on an empty list.
\<close>

definition np_mean :: "real list \<Rightarrow> real" where
  "np_mean xs = sum_list xs / real (length xs)"

fun np_min :: "real list \<Rightarrow> error + real" where
  "np_min [] = Inl ValueError"
| "np_min (x # xs) = Inr (fold min xs x)"

fun np_max :: "real list \<Rightarrow> error + real" where
  "np_max [] = Inl ValueError"
| "np_max (x # xs) = Inr (fold max xs x)"

text \<open>
  The whole block of lines 113 to 133: \<^verbatim>\<open>range(num_simulations)\<close> is empty for a count of
  zero or less, so the loop runs \<open>nat num_simulations\<close> times; then the aggregates are taken
  in the order mean, minimum, maximum. The final generator state is returned with the
  outcome.
\<close>

definition run_monte_carlo ::
  "('g \<Rightarrow> real \<times> 'g) \<Rightarrow> BankFinancials \<Rightarrow> int \<Rightarrow> 'g \<Rightarrow> (error + SimulationSummary) \<times> 'g" where
  "run_monte_carlo rnd f num_simulations g =
     (case simulation_loop rnd f (nat num_simulations) [] g of
        (Inl e, g') \<Rightarrow> (Inl e, g')
      | (Inr simulation_results, g') \<Rightarrow>
          (case np_min simulation_results of
             Inl e \<Rightarrow> (Inl e, g')
           | Inr mn \<Rightarrow>
               (case np_max simulation_results of
                  Inl e \<Rightarrow> (Inl e, g')
                | Inr mx \<Rightarrow>
                    (Inr \<lparr>sample_count = num_simulations, ratios = simulation_results,
                          mean_ratio = np_mean simulation_results,
                          min_ratio = mn, max_ratio = mx\<rparr>, g'))))"

subsection \<open>The sequence of draws, stated independently of the loop\<close>

text \<open>
  The generator state after \<open>k\<close> samples, the \<open>k\<close>-th unit sample counted from a state, and
  the triple that the specification assigns to draw \<open>i\<close>: its three fields are three
  consecutive samples, each used once, scaled to the ranges 0 to 5, 0 to 10 and 0 to 10.
\<close>

primrec advance :: "('g \<Rightarrow> real \<times> 'g) \<Rightarrow> nat \<Rightarrow> 'g \<Rightarrow> 'g" where
  "advance rnd 0 g = g"
| "advance rnd (Suc k) g = advance rnd k (snd (rnd g))"

definition unit_sample :: "('g \<Rightarrow> real \<times> 'g) \<Rightarrow> 'g \<Rightarrow> nat \<Rightarrow> real" where
  "unit_sample rnd g k = fst (rnd (advance rnd k g))"

definition draw_triple :: "('g \<Rightarrow> real \<times> 'g) \<Rightarrow> 'g \<Rightarrow> nat \<Rightarrow> StressTriple" where
  "draw_triple rnd g i =
     \<lparr>interest_rate_hike_pct = 5 * unit_sample rnd g (3 * i),
      credit_loss_rate_pct = 10 * unit_sample rnd g (3 * i + 1),
      market_shock_pct = 10 * unit_sample rnd g (3 * i + 2)\<rparr>"

text \<open>A generator whose samples lie in the half-open unit interval, as numpy's do.\<close>

definition unit_range :: "('g \<Rightarrow> real \<times> 'g) \<Rightarrow> bool" where
  "unit_range rnd = (\<forall>g. 0 \<le> fst (rnd g) \<and> fst (rnd g) < 1)"

text \<open>
  A small deterministic generator on the states 0 to 15, used to run the simulation on
  concrete inputs.
\<close>

definition small_rnd :: "nat \<Rightarrow> real \<times> nat" where
  "small_rnd n = (real (n mod 16) / 16, (5 * n + 3) mod 16)"


section \<open>Auxiliary facts\<close>

text \<open>The generator state after a number of samples, and the draws seen from a later state.\<close>

lemma advance_add: "advance rnd (a + b) g = advance rnd b (advance rnd a g)"
  by (induction a arbitrary: g) simp_all

lemma unit_sample_advance: "unit_sample rnd (advance rnd a g) k = unit_sample rnd g (a + k)"
  by (simp add: unit_sample_def advance_add)

lemma advance_3: "advance rnd 3 g = snd (rnd (snd (rnd (snd (rnd g)))))"
  by (simp add: numeral_3_eq_3)

lemma draw_triple_advance: "draw_triple rnd (advance rnd 3 g) i = draw_triple rnd g (Suc i)"
  by (simp add: draw_triple_def unit_sample_advance add.commute add.left_commute)

lemma compute_result_Inr:
  "risk_weighted_assets f \<noteq> 0 \<Longrightarrow> \<exists>r. compute_result f t = Inr r"
  by (simp add: compute_result_def Let_def)

lemma simulation_loop_ok:
  "risk_weighted_assets f \<noteq> 0 \<Longrightarrow>
   simulation_loop rnd f n acc g =
     (Inr (acc @ map (\<lambda>i. updated_cet1_ratio_pct (projr (compute_result f (draw_triple rnd g i)))) [0..<n]),
      advance rnd (3 * n) g)"
proof (induction n arbitrary: acc g)
  case 0
  then show ?case by simp
next
  case (Suc n)
  have st: "advance rnd (3 * Suc n) g = advance rnd (3 * n) (advance rnd 3 g)"
    using advance_add [of rnd 3 "3 * n" g] by simp
  have first: "updated_cet1_ratio_pct (projr (compute_result f (draw_triple rnd g 0)))
     = ((cet1_capital f - (risk_weighted_assets f * (fst (np_random_uniform rnd 0 5 g) / 100)
         + risk_weighted_assets f * (fst (np_random_uniform rnd 0 10 (snd (rnd g))) / 100)
         + tier1_capital f * (fst (np_random_uniform rnd 0 10 (snd (rnd (snd (rnd g))))) / 100)))
        / risk_weighted_assets f) * 100"
    using Suc.prems
    by (simp add: compute_result_def Let_def draw_triple_def unit_sample_def np_random_uniform_def
        split: prod.splits)
  have lst: "map (\<lambda>i. updated_cet1_ratio_pct (projr (compute_result f (draw_triple rnd g i)))) [0..<Suc n]
     = updated_cet1_ratio_pct (projr (compute_result f (draw_triple rnd g 0)))
       # map (\<lambda>i. updated_cet1_ratio_pct (projr (compute_result f (draw_triple rnd (advance rnd 3 g) i)))) [0..<n]"
    by (simp add: draw_triple_advance upt_conv_Cons map_Suc_upt [symmetric] del: upt_Suc)
  show ?case
    using Suc.prems
    apply (simp only: simulation_loop.simps lst st)
    apply (simp add: Suc.IH [OF Suc.prems] first advance_3 np_random_uniform_def Let_def split: prod.splits)
    done
qed

lemma np_min_eq: "np_min xs = (if xs = [] then Inl ValueError else Inr (Min (set xs)))"
  by (cases xs) (simp_all add: Min.set_eq_fold [symmetric])

lemma np_max_eq: "np_max xs = (if xs = [] then Inl ValueError else Inr (Max (set xs)))"
  by (cases xs) (simp_all add: Max.set_eq_fold [symmetric])




lemma run_monte_carlo_ok:
  fixes rnd :: "'g \<Rightarrow> real \<times> 'g" and g :: 'g
  assumes "0 < N" and "risk_weighted_assets f \<noteq> 0"
  defines "rs \<equiv> map (\<lambda>i. updated_cet1_ratio_pct (projr (compute_result f (draw_triple rnd g i)))) [0..<nat N]"
  shows "run_monte_carlo rnd f N g =
     (Inr \<lparr>sample_count = N, ratios = rs, mean_ratio = np_mean rs,
           min_ratio = Min (set rs), max_ratio = Max (set rs)\<rparr>,
      advance rnd (3 * nat N) g)"
proof -
  have ne: "rs \<noteq> []" using assms(1) by (simp add: rs_def)
  have loop: "simulation_loop rnd f (nat N) [] g = (Inr rs, advance rnd (3 * nat N) g)"
    using simulation_loop_ok [OF assms(2), of rnd "nat N" "[]" g] by (simp add: rs_def)
  show ?thesis
    using ne by (simp add: run_monte_carlo_def loop np_min_eq np_max_eq)
qed

lemma draw_triple_range:
  assumes "unit_range rnd"
  shows "0 \<le> interest_rate_hike_pct (draw_triple rnd g i) \<and> interest_rate_hike_pct (draw_triple rnd g i) < 5
       \<and> 0 \<le> credit_loss_rate_pct (draw_triple rnd g i) \<and> credit_loss_rate_pct (draw_triple rnd g i) < 10
       \<and> 0 \<le> market_shock_pct (draw_triple rnd g i) \<and> market_shock_pct (draw_triple rnd g i) < 10"
  using assms by (simp add: unit_range_def draw_triple_def unit_sample_def)






section \<open>Properties of the stress testing logic\<close>

text \<open>
  Claim C1. Whenever the ratio can be formed (risk-weighted assets not zero, which the data
  model of the specification requires of every financials record), the result holds
  interest-rate and credit losses scaled off the risk-weighted assets, the market-shock
  loss scaled off Tier-1 capital, their sum, the CET1 capital less that sum, and that
  remainder over the risk-weighted assets in percent. On the default financials with the
  Mild Recession triple the six values are 120, 240, 36, 396, 604 and 604/12000*100.
\<close>

theorem compute_result_formulas:
  "(risk_weighted_assets f \<noteq> 0 \<longrightarrow>
      compute_result f t =
        Inr \<lparr>interest_rate_loss = risk_weighted_assets f * (interest_rate_hike_pct t / 100),
             credit_losses = risk_weighted_assets f * (credit_loss_rate_pct t / 100),
             market_shock_loss = tier1_capital f * (market_shock_pct t / 100),
             total_losses =
               risk_weighted_assets f * (interest_rate_hike_pct t / 100)
               + risk_weighted_assets f * (credit_loss_rate_pct t / 100)
               + tier1_capital f * (market_shock_pct t / 100),
             updated_cet1 =
               cet1_capital f
               - (risk_weighted_assets f * (interest_rate_hike_pct t / 100)
                  + risk_weighted_assets f * (credit_loss_rate_pct t / 100)
                  + tier1_capital f * (market_shock_pct t / 100)),
             updated_cet1_ratio_pct =
               ((cet1_capital f
                 - (risk_weighted_assets f * (interest_rate_hike_pct t / 100)
                    + risk_weighted_assets f * (credit_loss_rate_pct t / 100)
                    + tier1_capital f * (market_shock_pct t / 100)))
                / risk_weighted_assets f) * 100\<rparr>)
   \<and> compute_result default_financials mild_recession =
        Inr \<lparr>interest_rate_loss = 120, credit_losses = 240, market_shock_loss = 36,
             total_losses = 396, updated_cet1 = 604,
             updated_cet1_ratio_pct = 604 / 12000 * 100\<rparr>"
  by (simp add: compute_result_def Let_def default_financials_def mild_recession_def)

theorem compute_result_formulas_witness:
  "risk_weighted_assets default_financials \<noteq> 0
   \<and> compute_result default_financials
        \<lparr>interest_rate_hike_pct = 2.5, credit_loss_rate_pct = 5.0, market_shock_pct = 8.0\<rparr> =
       Inr \<lparr>interest_rate_loss = 300, credit_losses = 600, market_shock_loss = 96,
            total_losses = 996, updated_cet1 = 4,
            updated_cet1_ratio_pct = 4 / 12000 * 100\<rparr>"
  using compute_result_formulas
    [of default_financials
        "\<lparr>interest_rate_hike_pct = 2.5, credit_loss_rate_pct = 5.0, market_shock_pct = 8.0\<rparr>"]
  by (simp add: default_financials_def)



text \<open>
  Claim C7. With risk-weighted assets equal to zero the computation fails with the
  division-by-zero error and yields no result: no ratio is clamped or defaulted. With any
  other value of the risk-weighted assets the division succeeds and a result is returned.
\<close>

theorem compute_result_division_by_zero:
  "(risk_weighted_assets f = 0 \<longrightarrow> compute_result f t = Inl DivisionByZero)
   \<and> (risk_weighted_assets f \<noteq> 0 \<longrightarrow> (\<exists>r. compute_result f t = Inr r))"
  by (simp add: compute_result_def Let_def)

theorem compute_result_division_by_zero_witness:
  "risk_weighted_assets (default_financials\<lparr>risk_weighted_assets := 0\<rparr>) = 0
   \<and> compute_result (default_financials\<lparr>risk_weighted_assets := 0\<rparr>) mild_recession
       = Inl DivisionByZero
   \<and> risk_weighted_assets default_financials \<noteq> 0
   \<and> (\<exists>r. compute_result default_financials mild_recession = Inr r)"
  using compute_result_division_by_zero
          [of "default_financials\<lparr>risk_weighted_assets := 0\<rparr>" mild_recession]
        compute_result_division_by_zero [of default_financials mild_recession]
  by (simp add: default_financials_def)



section \<open>Properties of the composition, the comparison and the catalogue\<close>




text \<open>
  Claim C5, as amended. The lookup maps each of the nine predefined scenario names to the
  fixed triple of the table, and the name of the custom scenario to the triple read from
  the sliders. For a name outside the ten options it raises nothing of its own: the
  function returns \<^verbatim>\<open>None\<close>, and the unpacking at the call site fails with \<^verbatim>\<open>TypeError\<close>.
\<close>

theorem get_scenario_parameters_table:
  "get_scenario_parameters ''Baseline (No Stress)'' sliders = Some (triple 0.0 0.0 0.0)
   \<and> get_scenario_parameters ''Mild Recession'' sliders = Some (triple 1.0 2.0 3.0)
   \<and> get_scenario_parameters ''Severe Recession'' sliders = Some (triple 2.5 5.0 8.0)
   \<and> get_scenario_parameters ''Interest Rate Shock'' sliders = Some (triple 3.0 0.0 0.0)
   \<and> get_scenario_parameters ''Market Crash'' sliders = Some (triple 0.0 0.0 10.0)
   \<and> get_scenario_parameters ''Credit Crisis'' sliders = Some (triple 0.5 8.0 3.0)
   \<and> get_scenario_parameters ''Inflation Shock'' sliders = Some (triple 4.0 1.0 2.0)
   \<and> get_scenario_parameters ''Liquidity Stress'' sliders = Some (triple 0.0 3.0 5.0)
   \<and> get_scenario_parameters ''Currency Devaluation'' sliders = Some (triple 1.5 2.5 6.0)
   \<and> get_scenario_parameters ''Custom Scenario'' sliders = Some sliders
   \<and> (scenario \<in> set scenario_names \<longrightarrow>
         (\<exists>t. get_scenario_parameters scenario sliders = Some t \<and> lookup scenario sliders = Inr t))
   \<and> (scenario \<notin> set scenario_names \<longrightarrow>
         get_scenario_parameters scenario sliders = None
         \<and> lookup scenario sliders = Inl TypeError)"
  by (simp add: get_scenario_parameters_def lookup_def unpack_parameters_def scenario_names_def)

theorem get_scenario_parameters_table_witness:
  "''Credit Crisis'' \<in> set scenario_names
   \<and> lookup ''Credit Crisis'' (triple 1.0 2.0 5.0) = Inr (triple 0.5 8.0 3.0)
   \<and> ''Hyperinflation'' \<notin> set scenario_names
   \<and> get_scenario_parameters ''Hyperinflation'' (triple 1.0 2.0 5.0) = None
   \<and> lookup ''Hyperinflation'' (triple 1.0 2.0 5.0) = Inl TypeError"
  using get_scenario_parameters_table [of "triple 1.0 2.0 5.0" "''Credit Crisis''"]
    get_scenario_parameters_table [of "triple 1.0 2.0 5.0" "''Hyperinflation''"]
  by (auto simp: scenario_names_def)

text \<open>
  The lookup of a name that is not among the ten options returns \<^verbatim>\<open>None\<close>, a value, and
  the failure that follows at the call site is not \<open>UnknownScenario\<close>.
\<close>

theorem lookup_unknown_scenario_counterexample:
  "''Hyperinflation'' \<notin> set scenario_names
   \<and> get_scenario_parameters ''Hyperinflation'' (triple 1.0 2.0 5.0) = None
   \<and> lookup ''Hyperinflation'' (triple 1.0 2.0 5.0) \<noteq> Inl UnknownScenario"
  by (simp add: get_scenario_parameters_def lookup_def unpack_parameters_def scenario_names_def)

section \<open>Properties of the Monte Carlo simulation\<close>

text \<open>
  Claim C8. For a positive number of simulations \<open>N\<close> (and risk-weighted assets not zero)
  the run returns a summary after exactly \<open>N\<close> draws, that is, after \<open>3 * N\<close> samples of
  the generator: draw \<open>i\<close> takes its three fields from the samples \<open>3 * i\<close>, \<open>3 * i + 1\<close>
  and \<open>3 * i + 2\<close>, each sample used for one field of one draw only, scaled to the
  ranges 0 to 5, 0 to 10 and 0 to 10 (half-open when the generator's samples lie in the
  half-open unit interval); the \<open>i\<close>-th ratio of the summary is the updated CET1 ratio that
  the stress testing logic returns for the triple of draw \<open>i\<close>; the list of ratios has
  length \<open>N\<close> and is in draw order; the mean is the sum of the ratios over \<open>N\<close>, and the
  minimum and maximum are their extrema. The distribution of the samples is a property of
  the generator, which is a parameter here.
\<close>

theorem run_monte_carlo_draws:
  fixes rnd :: "'g \<Rightarrow> real \<times> 'g" and g :: 'g
  assumes "0 < N" and "risk_weighted_assets f \<noteq> 0"
  shows "\<exists>s. run_monte_carlo rnd f N g = (Inr s, advance rnd (3 * nat N) g)
           \<and> sample_count s = N
           \<and> length (ratios s) = nat N
           \<and> (\<forall>i<nat N. \<exists>r. compute_result f (draw_triple rnd g i) = Inr r
                  \<and> ratios s ! i = updated_cet1_ratio_pct r)
           \<and> (unit_range rnd \<longrightarrow>
                (\<forall>i<nat N.
                   0 \<le> interest_rate_hike_pct (draw_triple rnd g i)
                   \<and> interest_rate_hike_pct (draw_triple rnd g i) < 5
                   \<and> 0 \<le> credit_loss_rate_pct (draw_triple rnd g i)
                   \<and> credit_loss_rate_pct (draw_triple rnd g i) < 10
                   \<and> 0 \<le> market_shock_pct (draw_triple rnd g i)
                   \<and> market_shock_pct (draw_triple rnd g i) < 10))
           \<and> mean_ratio s = sum_list (ratios s) / real_of_int N
           \<and> min_ratio s = Min (set (ratios s))
           \<and> max_ratio s = Max (set (ratios s))"
proof -
  define rs where
    "rs = map (\<lambda>i. updated_cet1_ratio_pct (projr (compute_result f (draw_triple rnd g i))))
            [0..<nat N]"
  define s where
    "s = \<lparr>sample_count = N, ratios = rs, mean_ratio = np_mean rs,
          min_ratio = Min (set rs), max_ratio = Max (set rs)\<rparr>"
  have run: "run_monte_carlo rnd f N g = (Inr s, advance rnd (3 * nat N) g)"
    using run_monte_carlo_ok [OF assms, of rnd g] by (simp add: s_def rs_def)
  have len: "length rs = nat N"
    by (simp add: rs_def)
  have each: "\<exists>r. compute_result f (draw_triple rnd g i) = Inr r
                 \<and> rs ! i = updated_cet1_ratio_pct r" if "i < nat N" for i
  proof -
    obtain r where "compute_result f (draw_triple rnd g i) = Inr r"
      using compute_result_Inr [OF assms(2)] by blast
    then show ?thesis
      using that by (simp add: rs_def)
  qed
  have mean: "np_mean rs = sum_list rs / real_of_int N"
    using assms(1) by (simp add: np_mean_def len)
  show ?thesis
    apply (rule exI [of _ s])
    using run len each mean draw_triple_range [of rnd g]
    by (simp add: s_def)
qed

theorem run_monte_carlo_draws_witness:
  "(0::int) < 100 \<and> risk_weighted_assets default_financials \<noteq> 0 \<and> unit_range small_rnd
   \<and> (\<exists>s. run_monte_carlo small_rnd default_financials 100 7 = (Inr s, 3)
         \<and> sample_count s = 100 \<and> length (ratios s) = 100
         \<and> ratios s ! 0 = 7 / 3
         \<and> interest_rate_hike_pct (draw_triple small_rnd 7 0) < 5
         \<and> mean_ratio s = sum_list (ratios s) / 100
         \<and> min_ratio s = Min (set (ratios s))
         \<and> max_ratio s = Max (set (ratios s)))"
proof -
  have pos: "(0::int) < 100" by simp
  have nz: "risk_weighted_assets default_financials \<noteq> 0"
    by (simp add: default_financials_def)
  have ur: "unit_range small_rnd"
    by (simp add: unit_range_def small_rnd_def)
  have st: "advance small_rnd (3 * nat 100) 7 = 3"
  proof -
    have "3 * nat 100 = (300::nat)" by simp
    moreover have "advance small_rnd 300 7 = 3" by code_simp
    ultimately show ?thesis by simp
  qed
  have first: "updated_cet1_ratio_pct r = 7 / 3"
    if "compute_result default_financials (draw_triple small_rnd 7 0) = Inr r" for r
    using that
    by (auto simp: compute_result_def draw_triple_def unit_sample_def small_rnd_def
        default_financials_def Let_def)
  have z: "(0::nat) < nat 100" by simp
  from run_monte_carlo_draws [OF pos nz, of small_rnd 7]
  obtain s where s: "run_monte_carlo small_rnd default_financials 100 7
        = (Inr s, advance small_rnd (3 * nat 100) 7)
      \<and> sample_count s = 100
      \<and> length (ratios s) = nat 100
      \<and> (\<forall>i<nat 100. \<exists>r. compute_result default_financials (draw_triple small_rnd 7 i) = Inr r
                  \<and> ratios s ! i = updated_cet1_ratio_pct r)
      \<and> (unit_range small_rnd \<longrightarrow>
                (\<forall>i<nat 100.
                   0 \<le> interest_rate_hike_pct (draw_triple small_rnd 7 i)
                   \<and> interest_rate_hike_pct (draw_triple small_rnd 7 i) < 5
                   \<and> 0 \<le> credit_loss_rate_pct (draw_triple small_rnd 7 i)
                   \<and> credit_loss_rate_pct (draw_triple small_rnd 7 i) < 10
                   \<and> 0 \<le> market_shock_pct (draw_triple small_rnd 7 i)
                   \<and> market_shock_pct (draw_triple small_rnd 7 i) < 10))
      \<and> mean_ratio s = sum_list (ratios s) / real_of_int 100
      \<and> min_ratio s = Min (set (ratios s))
      \<and> max_ratio s = Max (set (ratios s))" ..
  note s1 = s [THEN conjunct1]
  note s2 = s [THEN conjunct2, THEN conjunct1]
  note s3 = s [THEN conjunct2, THEN conjunct2, THEN conjunct1]
  note s4 = s [THEN conjunct2, THEN conjunct2, THEN conjunct2, THEN conjunct1]
  note s5 = s [THEN conjunct2, THEN conjunct2, THEN conjunct2, THEN conjunct2, THEN conjunct1]
  note s6 = s [THEN conjunct2, THEN conjunct2, THEN conjunct2, THEN conjunct2, THEN conjunct2,
      THEN conjunct1]
  note s7 = s [THEN conjunct2, THEN conjunct2, THEN conjunct2, THEN conjunct2, THEN conjunct2,
      THEN conjunct2, THEN conjunct1]
  note s8 = s [THEN conjunct2, THEN conjunct2, THEN conjunct2, THEN conjunct2, THEN conjunct2,
      THEN conjunct2, THEN conjunct2]
  have run: "run_monte_carlo small_rnd default_financials 100 7 = (Inr s, 3)"
    using s1 by (simp only: st)
  have cnt: "sample_count s = 100"
    by (fact s2)
  have len: "length (ratios s) = 100"
    using s3 by simp
  have r0: "ratios s ! 0 = 7 / 3"
    using s4 [THEN spec, THEN mp, OF z] first by (elim exE conjE) simp
  have h0: "interest_rate_hike_pct (draw_triple small_rnd 7 0) < 5"
    using s5 [THEN mp, OF ur, THEN spec, THEN mp, OF z] by (elim conjE)
  have mean: "mean_ratio s = sum_list (ratios s) / 100"
    using s6 by simp
  have mn: "min_ratio s = Min (set (ratios s))"
    by (fact s7)
  have mx: "max_ratio s = Max (set (ratios s))"
    by (fact s8)
  show ?thesis
    by (intro conjI exI [of _ s]) (fact pos nz ur run cnt len r0 h0 mean mn mx)+
qed







end
